theory Spec2Isabelle
  imports Complex_Main
begin

section \<open>Data model of \<open>edward/inferences.py\<close>\<close>

text \<open>
  The exceptions the module can raise.  \<open>NotImplementedError\<close> carries its message
  (the abstract \<open>build_loss\<close> raises it with no message, \<open>initialize\<close> with one);
  \<open>AttributeError\<close> and \<open>NameError\<close> carry the name that was looked up.
\<close>

datatype error =
    NotImplementedError string
  | AttributeError string
  | NameError string
  | ZeroDivisionError

text \<open>
  The inference classes only build a TensorFlow graph; the graph is kept as a symbolic
  expression.  Calls on the collaborators (\<open>self.data\<close>, \<open>self.variational\<close>,
  \<open>self.model\<close>) are nodes that name the call and its arguments.
  \<open>Util_stop_gradient\<close> is \<open>edward.util.stop_gradient\<close>, \<open>Tf_stop_gradient\<close> is
  \<open>tf.stop_gradient\<close>.
\<close>

datatype tensor =
    Constant real
  | Data_sample "int option"
  | Variational_sample "int option"
  | Util_stop_gradient tensor
  | Tf_stop_gradient tensor
  | Variational_log_prob tensor
  | Variational_entropy
  | Model_log_prob tensor tensor
  | Model_log_lik tensor tensor
  | Layer_loc nat
  | Layer_scale nat
  | Pack "tensor list"
  | Kl_multivariate_normal tensor tensor
  | Log_sum_exp tensor
  | Reduce_mean tensor
  | Squeeze tensor
  | Exp tensor
  | Neg tensor
  | Add tensor tensor
  | Sub tensor tensor
  | Mul tensor tensor

text \<open>
  The training operation stored in \<open>self.train\<close>: either Adam with the exponentially
  decaying learning rate (start, decay steps, decay rate, staircase) minimising the loss
  over the trainable variables of a scope, or the PrettyTensor optimizer (learning rate,
  epsilon) applied to the list of losses.
\<close>

datatype train_op =
    Adam_decay_minimize real int real bool tensor "string option"
  | Pt_apply_optimizer real real "tensor list"

text \<open>The attributes of the model that the module inspects with \<open>hasattr\<close>.\<close>

record model =
  num_vars :: "int option"
  has_log_lik :: bool

text \<open>
  A layer of the variational family: a point mass with its size, its initial parameter
  values and the variable scope that was open when it was constructed, or a Gaussian
  factor of a given size.
\<close>

datatype layer =
    PointMass "string option" int "real list option"
  | Normal int

record variational =
  layers :: "layer list"
  is_reparam :: bool
  is_normal :: bool

text \<open>
  An inference object together with the process state it acts on.  An attribute that is
  assigned only by \<open>initialize\<close> or \<open>build_loss\<close> is an option: \<open>None\<close> means that
  the attribute does not exist yet, and reading it raises \<open>AttributeError\<close>.
  \<open>n_data\<close> and \<open>n_print\<close> may themselves hold Python's \<open>None\<close>.
  \<open>session\<close> is the state of the TensorFlow session, \<open>stdout\<close> the printed lines.
\<close>

record ('d, 'e) inference =
  model :: model
  data :: 'd
  variational :: variational
  n_iter :: "int option"
  n_data :: "int option option"
  n_print :: "int option option"
  loss :: "tensor option"
  train :: "train_op option"
  zs :: "tensor option"
  score :: "bool option"
  n_minibatch :: "int option"
  session :: 'e
  stdout :: "string list"

text \<open>
  What the module takes from outside: one run of the session on the training operation
  and the loss (it returns the loss value and the new session state), the initialisation
  of all variables, whether PrettyTensor could be imported, the rendering of a float by
  \<open>{:.2f}\<close> and the string of the variational family.
\<close>

record 'e env =
  sess_run :: "train_op \<Rightarrow> tensor \<Rightarrow> 'e \<Rightarrow> real \<times> 'e"
  init_run :: "'e \<Rightarrow> 'e"
  prettytensor :: bool
  format_2f :: "real \<Rightarrow> string"
  str_variational :: "variational \<Rightarrow> 'e \<Rightarrow> string"

type_synonym ('a, 'd, 'e) result = "(error + 'a) \<times> ('d, 'e) inference"

section \<open>Constructors\<close>

text \<open>
  Modelled from the spec: \<open>Variational\<close> and \<open>PointMass\<close> of \<open>edward.models\<close> are not
  among the sources.  The family is an ordered sequence of layers with the two capability
  flags; \<open>add\<close> appends a layer; a point mass has as many free parameters as its size.
\<close>

definition Variational :: variational where
  "Variational = \<lparr>layers = [], is_reparam = True, is_normal = True\<rparr>"

fun layer_is_normal :: "layer \<Rightarrow> bool" where
  "layer_is_normal (Normal n) = True"
| "layer_is_normal (PointMass sc n p) = False"

definition add :: "layer \<Rightarrow> variational \<Rightarrow> variational" where
  "add l v = v\<lparr>layers := layers v @ [l], is_normal := (is_normal v \<and> layer_is_normal l)\<rparr>"

fun num_params :: "layer \<Rightarrow> int" where
  "num_params (PointMass sc n p) = n"
| "num_params (Normal n) = 2 * n"

text \<open>\<open>Inference.__init__\<close> and \<open>VariationalInference.__init__\<close>: a fresh object has
  the model, the data and the variational family, and none of the later attributes.\<close>

definition VariationalInference_init ::
  "model \<Rightarrow> variational \<Rightarrow> 'd \<Rightarrow> 'e \<Rightarrow> ('d, 'e) inference" where
  "VariationalInference_init m v d e =
     \<lparr>model = m, data = d, variational = v, n_iter = None, n_data = None, n_print = None,
      loss = None, train = None, zs = None, score = None, n_minibatch = None,
      session = e, stdout = []\<rparr>"

text \<open>\<open>MAP.__init__\<close>: with \<open>num_vars\<close> a point mass of that size seeded with
  \<open>params\<close>, otherwise \<open>PointMass(0)\<close>.\<close>

definition MAP_init ::
  "model \<Rightarrow> 'd \<Rightarrow> real list option \<Rightarrow> 'e \<Rightarrow> error + ('d, 'e) inference" where
  "MAP_init m d params e =
     (case num_vars m of
        Some n \<Rightarrow> Inr (VariationalInference_init m (add (PointMass None n params) Variational) d e)
      | None \<Rightarrow> Inr (VariationalInference_init m (add (PointMass None 0 None) Variational) d e))"

text \<open>\<open>Laplace.__init__\<close>: reads \<open>model.num_vars\<close> unconditionally, inside the
  variable scope \<open>"variational"\<close>.\<close>

definition Laplace_init ::
  "model \<Rightarrow> 'd \<Rightarrow> real list option \<Rightarrow> 'e \<Rightarrow> error + ('d, 'e) inference" where
  "Laplace_init m d params e =
     (case num_vars m of
        None \<Rightarrow> Inl (AttributeError ''num_vars'')
      | Some n \<Rightarrow>
          Inr (VariationalInference_init m
                 (add (PointMass (Some ''variational'') n params) Variational) d e))"

section \<open>Loss builders\<close>

text \<open>The abstract \<open>VariationalInference.build_loss\<close>.\<close>

definition VariationalInference_build_loss ::
  "('d, 'e) inference \<Rightarrow> (tensor, 'd, 'e) result" where
  "VariationalInference_build_loss st = (Inl (NotImplementedError []), st)"

definition MAP_build_loss :: "('d, 'e) inference \<Rightarrow> (tensor, 'd, 'e) result" where
  "MAP_build_loss st =
     (case n_data st of
        None \<Rightarrow> (Inl (AttributeError ''n_data''), st)
      | Some nd \<Rightarrow>
          (let x = Data_sample nd;
               z = Variational_sample None;
               l = Squeeze (Model_log_prob x z)
           in (Inr (Neg l), st\<lparr>loss := Some l\<rparr>)))"

definition Laplace_build_loss :: "('d, 'e) inference \<Rightarrow> (tensor, 'd, 'e) result" where
  "Laplace_build_loss st =
     (case n_data st of
        None \<Rightarrow> (Inl (AttributeError ''n_data''), st)
      | Some nd \<Rightarrow>
          (let x = Data_sample nd;
               z = Variational_sample None;
               l = Squeeze (Model_log_prob x z)
           in (Inr (Neg l), st\<lparr>loss := Some l\<rparr>)))"

text \<open>
  The MFVI builders.  Each reads \<open>self.n_data\<close> and \<open>self.n_minibatch\<close>, stores the
  sample node in \<open>self.zs\<close>, stores the reportable loss in \<open>self.loss\<close> and returns
  the expression handed to the optimizer.
\<close>

definition MFVI_build_score_loss :: "('d, 'e) inference \<Rightarrow> (tensor, 'd, 'e) result" where
  "MFVI_build_score_loss st =
     (case n_data st of
        None \<Rightarrow> (Inl (AttributeError ''n_data''), st)
      | Some nd \<Rightarrow>
     (case n_minibatch st of
        None \<Rightarrow> (Inl (AttributeError ''n_minibatch''), st)
      | Some nm \<Rightarrow>
          (let x = Data_sample nd;
               z = Variational_sample (Some nm);
               q_log_prob = Variational_log_prob (Util_stop_gradient z);
               losses = Sub (Model_log_prob x z) q_log_prob
           in (Inr (Neg (Reduce_mean (Mul q_log_prob (Tf_stop_gradient losses)))),
               st\<lparr>zs := Some z, loss := Some (Reduce_mean losses)\<rparr>))))"

definition MFVI_build_reparam_loss :: "('d, 'e) inference \<Rightarrow> (tensor, 'd, 'e) result" where
  "MFVI_build_reparam_loss st =
     (case n_data st of
        None \<Rightarrow> (Inl (AttributeError ''n_data''), st)
      | Some nd \<Rightarrow>
     (case n_minibatch st of
        None \<Rightarrow> (Inl (AttributeError ''n_minibatch''), st)
      | Some nm \<Rightarrow>
          (let x = Data_sample nd;
               z = Variational_sample (Some nm);
               l = Reduce_mean (Sub (Model_log_prob x z) (Variational_log_prob z))
           in (Inr (Neg l), st\<lparr>zs := Some z, loss := Some l\<rparr>))))"

text \<open>\<open>[layer.loc for layer in self.variational.layers]\<close>: only a Gaussian layer has
  \<open>loc\<close> and \<open>scale\<close>.\<close>

fun layer_locs :: "nat \<Rightarrow> layer list \<Rightarrow> error + tensor list" where
  "layer_locs i [] = Inr []"
| "layer_locs i (Normal n # ls) =
     (case layer_locs (Suc i) ls of Inl e \<Rightarrow> Inl e | Inr ts \<Rightarrow> Inr (Layer_loc i # ts))"
| "layer_locs i (PointMass sc n p # ls) = Inl (AttributeError ''loc'')"

fun layer_scales :: "nat \<Rightarrow> layer list \<Rightarrow> error + tensor list" where
  "layer_scales i [] = Inr []"
| "layer_scales i (Normal n # ls) =
     (case layer_scales (Suc i) ls of Inl e \<Rightarrow> Inl e | Inr ts \<Rightarrow> Inr (Layer_scale i # ts))"
| "layer_scales i (PointMass sc n p # ls) = Inl (AttributeError ''scale'')"

definition MFVI_build_score_loss_kl :: "('d, 'e) inference \<Rightarrow> (tensor, 'd, 'e) result" where
  "MFVI_build_score_loss_kl st =
     (case n_data st of
        None \<Rightarrow> (Inl (AttributeError ''n_data''), st)
      | Some nd \<Rightarrow>
     (case n_minibatch st of
        None \<Rightarrow> (Inl (AttributeError ''n_minibatch''), st)
      | Some nm \<Rightarrow>
          (let x = Data_sample nd;
               z = Variational_sample (Some nm);
               st1 = st\<lparr>zs := Some z\<rparr>;
               q_log_prob = Variational_log_prob (Util_stop_gradient z)
           in if \<not> has_log_lik (model st) then (Inl (AttributeError ''log_lik''), st1)
              else
                (let p_log_lik = Model_log_lik x z
                 in case layer_locs 0 (layers (variational st)) of
                      Inl e \<Rightarrow> (Inl e, st1)
                    | Inr locs \<Rightarrow>
                   (case layer_scales 0 (layers (variational st)) of
                      Inl e \<Rightarrow> (Inl e, st1)
                    | Inr scales \<Rightarrow>
                        (let mu = Pack locs;
                             sigma = Pack scales;
                             kl = Kl_multivariate_normal mu sigma
                         in (Inr (Neg (Sub (Reduce_mean (Mul q_log_prob (Tf_stop_gradient p_log_lik))) kl)),
                             st1\<lparr>loss := Some (Sub (Reduce_mean p_log_lik) kl)\<rparr>)))))))"

definition MFVI_build_score_loss_entropy :: "('d, 'e) inference \<Rightarrow> (tensor, 'd, 'e) result" where
  "MFVI_build_score_loss_entropy st =
     (case n_data st of
        None \<Rightarrow> (Inl (AttributeError ''n_data''), st)
      | Some nd \<Rightarrow>
     (case n_minibatch st of
        None \<Rightarrow> (Inl (AttributeError ''n_minibatch''), st)
      | Some nm \<Rightarrow>
          (let x = Data_sample nd;
               z = Variational_sample (Some nm);
               q_log_prob = Variational_log_prob (Util_stop_gradient z);
               p_log_prob = Model_log_prob x z;
               q_entropy = Variational_entropy
           in (Inr (Neg (Add (Reduce_mean (Mul q_log_prob (Tf_stop_gradient p_log_prob))) q_entropy)),
               st\<lparr>zs := Some z, loss := Some (Add (Reduce_mean p_log_prob) q_entropy)\<rparr>))))"

definition MFVI_build_reparam_loss_kl :: "('d, 'e) inference \<Rightarrow> (tensor, 'd, 'e) result" where
  "MFVI_build_reparam_loss_kl st =
     (case n_data st of
        None \<Rightarrow> (Inl (AttributeError ''n_data''), st)
      | Some nd \<Rightarrow>
     (case n_minibatch st of
        None \<Rightarrow> (Inl (AttributeError ''n_minibatch''), st)
      | Some nm \<Rightarrow>
          (let x = Data_sample nd;
               z = Variational_sample (Some nm);
               st1 = st\<lparr>zs := Some z\<rparr>
           in case layer_locs 0 (layers (variational st)) of
                Inl e \<Rightarrow> (Inl e, st1)
              | Inr locs \<Rightarrow>
             (case layer_scales 0 (layers (variational st)) of
                Inl e \<Rightarrow> (Inl e, st1)
              | Inr scales \<Rightarrow>
                  (let mu = Pack locs;
                       sigma = Pack scales
                   in if \<not> has_log_lik (model st) then (Inl (AttributeError ''log_lik''), st1)
                      else
                        (let l = Sub (Reduce_mean (Model_log_lik x z)) (Kl_multivariate_normal mu sigma)
                         in (Inr (Neg l), st1\<lparr>loss := Some l\<rparr>)))))))"

definition MFVI_build_reparam_loss_entropy :: "('d, 'e) inference \<Rightarrow> (tensor, 'd, 'e) result" where
  "MFVI_build_reparam_loss_entropy st =
     (case n_data st of
        None \<Rightarrow> (Inl (AttributeError ''n_data''), st)
      | Some nd \<Rightarrow>
     (case n_minibatch st of
        None \<Rightarrow> (Inl (AttributeError ''n_minibatch''), st)
      | Some nm \<Rightarrow>
          (let x = Data_sample nd;
               z = Variational_sample (Some nm);
               l = Add (Reduce_mean (Model_log_prob x z)) Variational_entropy
           in (Inr (Neg l), st\<lparr>zs := Some z, loss := Some l\<rparr>))))"

text \<open>\<open>MFVI.build_loss\<close>: the dispatch on \<open>self.score\<close>, \<open>is_normal\<close> and
  \<open>hasattr(self.model, 'log_lik')\<close>.  The two entropy branches are commented out in
  the source and have no counterpart here.\<close>

definition MFVI_build_loss :: "('d, 'e) inference \<Rightarrow> (tensor, 'd, 'e) result" where
  "MFVI_build_loss st =
     (case score st of
        None \<Rightarrow> (Inl (AttributeError ''score''), st)
      | Some sc \<Rightarrow>
          if sc then
            if is_normal (variational st) \<and> has_log_lik (model st)
            then MFVI_build_score_loss_kl st
            else MFVI_build_score_loss st
          else
            if is_normal (variational st) \<and> has_log_lik (model st)
            then MFVI_build_reparam_loss_kl st
            else MFVI_build_reparam_loss st)"

text \<open>\<open>KLpq.build_loss\<close>.  \<open>KLpq_w_norm\<close> is the pair of lines that normalise the
  importance weights.\<close>

definition KLpq_log_w_norm :: "tensor \<Rightarrow> tensor" where
  "KLpq_log_w_norm log_w = Sub log_w (Log_sum_exp log_w)"

definition KLpq_w_norm :: "tensor \<Rightarrow> tensor" where
  "KLpq_w_norm log_w = Exp (KLpq_log_w_norm log_w)"

definition KLpq_build_loss :: "('d, 'e) inference \<Rightarrow> (tensor, 'd, 'e) result" where
  "KLpq_build_loss st =
     (case n_data st of
        None \<Rightarrow> (Inl (AttributeError ''n_data''), st)
      | Some nd \<Rightarrow>
     (case n_minibatch st of
        None \<Rightarrow> (Inl (AttributeError ''n_minibatch''), st)
      | Some nm \<Rightarrow>
          (let x = Data_sample nd;
               z = Variational_sample (Some nm);
               q_log_prob = Variational_log_prob (Util_stop_gradient z);
               log_w = Sub (Model_log_prob x z) q_log_prob;
               w_norm = KLpq_w_norm log_w
           in (Inr (Neg (Reduce_mean (Mul q_log_prob (Tf_stop_gradient w_norm)))),
               st\<lparr>zs := Some z, loss := Some (Reduce_mean (Mul w_norm log_w))\<rparr>))))"

section \<open>The control loop of \<open>VariationalInference\<close>\<close>

text \<open>
  \<open>VariationalInference.initialize\<close>.  The subclass's \<open>build_loss\<close> is the first
  argument.  The defaults of the keyword arguments are \<open>n_iter=1000\<close>, \<open>n_data=None\<close>,
  \<open>n_print=100\<close>, \<open>optimizer=None\<close>, \<open>scope=None\<close>.
\<close>

definition VariationalInference_initialize ::
  "'e env \<Rightarrow> (('d, 'e) inference \<Rightarrow> (tensor, 'd, 'e) result) \<Rightarrow>
   int \<Rightarrow> int option \<Rightarrow> int option \<Rightarrow> string option \<Rightarrow> string option \<Rightarrow>
   ('d, 'e) inference \<Rightarrow> (unit, 'd, 'e) result" where
  "VariationalInference_initialize ev build_loss n_iter' n_data' n_print' optimizer scope st =
     (let st1 = st\<lparr>n_iter := Some n_iter', n_data := Some n_data', n_print := Some n_print',
                    loss := Some (Constant 0)\<rparr>
      in case build_loss st1 of
           (Inl e, st2) \<Rightarrow> (Inl e, st2)
         | (Inr l, st2) \<Rightarrow>
             (case optimizer of
                None \<Rightarrow>
                  (let st3 = st2\<lparr>train := Some (Adam_decay_minimize (1 / 10) 100 (9 / 10) True l scope)\<rparr>
                   in (Inr (), st3\<lparr>session := init_run ev (session st3)\<rparr>))
              | Some opt \<Rightarrow>
                  (case scope of
                     Some sc \<Rightarrow>
                       (Inl (NotImplementedError
                               ''PrettyTensor optimizer does not accept a variable scope.''), st2)
                   | None \<Rightarrow>
                       if \<not> prettytensor ev then (Inl (NameError ''pt''), st2)
                       else
                         (let st3 = st2\<lparr>train := Some (Pt_apply_optimizer (1 / 100) 1 [l])\<rparr>
                          in (Inr (), st3\<lparr>session := init_run ev (session st3)\<rparr>)))))"

text \<open>\<open>MFVI.initialize\<close> and \<open>KLpq.initialize\<close>; the defaults are \<open>n_minibatch=1\<close>
  and \<open>score=None\<close>.\<close>

definition MFVI_initialize ::
  "'e env \<Rightarrow> int \<Rightarrow> bool option \<Rightarrow>
   int \<Rightarrow> int option \<Rightarrow> int option \<Rightarrow> string option \<Rightarrow> string option \<Rightarrow>
   ('d, 'e) inference \<Rightarrow> (unit, 'd, 'e) result" where
  "MFVI_initialize ev n_minibatch' score' n_iter' n_data' n_print' optimizer scope st =
     (let st1 = (if score' = None \<and> is_reparam (variational st)
                 then st\<lparr>score := Some False\<rparr>
                 else st\<lparr>score := Some True\<rparr>);
          st2 = st1\<lparr>n_minibatch := Some n_minibatch'\<rparr>
      in VariationalInference_initialize ev MFVI_build_loss
           n_iter' n_data' n_print' optimizer scope st2)"

definition KLpq_initialize ::
  "'e env \<Rightarrow> int \<Rightarrow>
   int \<Rightarrow> int option \<Rightarrow> int option \<Rightarrow> string option \<Rightarrow> string option \<Rightarrow>
   ('d, 'e) inference \<Rightarrow> (unit, 'd, 'e) result" where
  "KLpq_initialize ev n_minibatch' n_iter' n_data' n_print' optimizer scope st =
     VariationalInference_initialize ev KLpq_build_loss
       n_iter' n_data' n_print' optimizer scope (st\<lparr>n_minibatch := Some n_minibatch'\<rparr>)"

text \<open>\<open>VariationalInference.update\<close>: one run of the session on \<open>self.train\<close> and
  \<open>self.loss\<close>.\<close>

definition VariationalInference_update ::
  "'e env \<Rightarrow> ('d, 'e) inference \<Rightarrow> (real, 'd, 'e) result" where
  "VariationalInference_update ev st =
     (case train st of
        None \<Rightarrow> (Inl (AttributeError ''train''), st)
      | Some tr \<Rightarrow>
     (case loss st of
        None \<Rightarrow> (Inl (AttributeError ''loss''), st)
      | Some l \<Rightarrow>
          (case sess_run ev tr l (session st) of
             (v, e') \<Rightarrow> (Inr v, st\<lparr>session := e'\<rparr>))))"

text \<open>The rendering of an integer by \<open>{:d}\<close>.\<close>

fun string_of_nat :: "nat \<Rightarrow> string" where
  "string_of_nat n =
     (if n < 10 then [char_of (48 + n)]
      else string_of_nat (n div 10) @ [char_of (48 + n mod 10)])"

declare string_of_nat.simps [simp del]

definition format_d :: "int \<Rightarrow> string" where
  "format_d t = (if t < 0 then CHR ''-'' # string_of_nat (nat (- t)) else string_of_nat (nat t))"

text \<open>\<open>VariationalInference.print_progress\<close>.  Python's \<open>t % n\<close> raises
  \<open>ZeroDivisionError\<close> for \<open>n = 0\<close>; for every other \<open>n\<close> it is \<open>t mod n\<close>.\<close>

definition print_progress ::
  "'e env \<Rightarrow> int \<Rightarrow> real \<Rightarrow> ('d, 'e) inference \<Rightarrow> (unit, 'd, 'e) result" where
  "print_progress ev t loss_value st =
     (case n_print st of
        None \<Rightarrow> (Inl (AttributeError ''n_print''), st)
      | Some None \<Rightarrow> (Inr (), st)
      | Some (Some n) \<Rightarrow>
          if n = 0 then (Inl ZeroDivisionError, st)
          else if t mod n = 0 then
            (Inr (), st\<lparr>stdout := stdout st @
               [''iter '' @ format_d t @ '' loss '' @ format_2f ev loss_value,
                str_variational ev (variational st) (session st)]\<rparr>)
          else (Inr (), st))"

text \<open>\<open>VariationalInference.finalize\<close> does nothing.\<close>

definition finalize :: "('d, 'e) inference \<Rightarrow> (unit, 'd, 'e) result" where
  "finalize st = (Inr (), st)"

text \<open>
  \<open>VariationalInference.run\<close>.  The four methods are looked up on \<open>self\<close>, so they
  are arguments; \<open>initialize\<close> comes with the arguments of \<open>run\<close> already applied.
  Beside the result and the state, \<open>run\<close> yields the trace of the method calls it
  made, in order.  \<open>range(self.n_iter+1)\<close> is the integer interval \<open>[0..n_iter]\<close>.
\<close>

datatype event =
    Initialize
  | Update "error + real"
  | Print_progress int real
  | Finalize

fun run_loop ::
  "('s \<Rightarrow> (error + real) \<times> 's) \<Rightarrow> (int \<Rightarrow> real \<Rightarrow> 's \<Rightarrow> (error + unit) \<times> 's) \<Rightarrow>
   int list \<Rightarrow> 's \<Rightarrow> ((error + unit) \<times> 's) \<times> event list" where
  "run_loop update' print_progress' [] st = ((Inr (), st), [])"
| "run_loop update' print_progress' (t # ts) st =
     (case update' st of
        (Inl e, st1) \<Rightarrow> ((Inl e, st1), [Update (Inl e)])
      | (Inr v, st1) \<Rightarrow>
          (case print_progress' t v st1 of
             (Inl e, st2) \<Rightarrow> ((Inl e, st2), [Update (Inr v), Print_progress t v])
           | (Inr u, st2) \<Rightarrow>
               (case run_loop update' print_progress' ts st2 of
                  (r, tr) \<Rightarrow> (r, Update (Inr v) # Print_progress t v # tr))))"

definition run ::
  "(('d, 'e) inference \<Rightarrow> (unit, 'd, 'e) result) \<Rightarrow>
   (('d, 'e) inference \<Rightarrow> (real, 'd, 'e) result) \<Rightarrow>
   (int \<Rightarrow> real \<Rightarrow> ('d, 'e) inference \<Rightarrow> (unit, 'd, 'e) result) \<Rightarrow>
   (('d, 'e) inference \<Rightarrow> (unit, 'd, 'e) result) \<Rightarrow>
   ('d, 'e) inference \<Rightarrow> (unit, 'd, 'e) result \<times> event list" where
  "run initialize' update' print_progress' finalize' st =
     (case initialize' st of
        (Inl e, st1) \<Rightarrow> ((Inl e, st1), [Initialize])
      | (Inr u, st1) \<Rightarrow>
          (case n_iter st1 of
             None \<Rightarrow> ((Inl (AttributeError ''n_iter''), st1), [Initialize])
           | Some n \<Rightarrow>
               (case run_loop update' print_progress' [0..n] st1 of
                  ((Inl e, st2), tr) \<Rightarrow> ((Inl e, st2), Initialize # tr)
                | ((Inr u, st2), tr) \<Rightarrow>
                    (case finalize' st2 of
                       (r, st3) \<Rightarrow> ((r, st3), Initialize # tr @ [Finalize])))))"

section \<open>What a graph computes and where its gradient flows\<close>

text \<open>
  Modelled from the spec: \<open>log_sum_exp\<close> of \<open>edward.util\<close> is not among the sources.
  The spec asks for a numerically stable log-sum-exp, a reduction in the log domain: the
  maximum is taken out before exponentiating.  The empty vector has no maximum.
\<close>

definition reduce_max :: "real list \<Rightarrow> real option" where
  "reduce_max xs = (case xs of [] \<Rightarrow> None | x # r \<Rightarrow> Some (fold max r x))"

definition log_sum_exp :: "real list \<Rightarrow> real option" where
  "log_sum_exp xs =
     (case reduce_max xs of
        None \<Rightarrow> None
      | Some m \<Rightarrow> Some (m + ln (sum_list (map (\<lambda>x. exp (x - m)) xs))))"

text \<open>The softmax of a vector, as the spec's testable property names it.\<close>

definition softmax :: "real list \<Rightarrow> real list" where
  "softmax xs = map (\<lambda>x. exp x / sum_list (map exp xs)) xs"

definition mean :: "real list \<Rightarrow> real" where
  "mean xs = sum_list xs / real (length xs)"

text \<open>
  The value of a node in exact arithmetic: a mini-batch, a sample of latent variables, a
  vector of reals (a scalar is a vector of length one) or a matrix.  The collaborators'
  functions are given by an interpretation.  Modelled from the spec:
  \<open>stop_gradient\<close> and \<open>kl_multivariate_normal\<close> of \<open>edward.util\<close> are not among the
  sources; a frozen copy has the value of its argument and no backward dataflow, and the
  closed-form KL divergence is a function of the stacked locations and scales.
\<close>

datatype ('x, 'z) val = X 'x | Z 'z | R "real list" | M "real list list"

record ('x, 'z) interp =
  data_sample_of :: "int option \<Rightarrow> 'x"
  variational_sample_of :: "int option \<Rightarrow> 'z"
  log_prob_q :: "'z \<Rightarrow> real list"
  entropy_q :: real
  log_prob_p :: "'x \<Rightarrow> 'z \<Rightarrow> real list"
  log_lik_p :: "'x \<Rightarrow> 'z \<Rightarrow> real list"
  loc_of :: "nat \<Rightarrow> real list"
  scale_of :: "nat \<Rightarrow> real list"
  kl_of :: "real list list \<Rightarrow> real list list \<Rightarrow> real"

text \<open>Elementwise operations broadcast a vector of length one.\<close>

definition broadcast ::
  "(real \<Rightarrow> real \<Rightarrow> real) \<Rightarrow> real list \<Rightarrow> real list \<Rightarrow> real list option" where
  "broadcast f xs ys =
     (if length xs = length ys then Some (map2 f xs ys)
      else if length ys = 1 then Some (map (\<lambda>x. f x (hd ys)) xs)
      else if length xs = 1 then Some (map (f (hd xs)) ys)
      else None)"

fun binop ::
  "(real \<Rightarrow> real \<Rightarrow> real) \<Rightarrow> ('x, 'z) val option \<Rightarrow> ('x, 'z) val option \<Rightarrow>
   ('x, 'z) val option" where
  "binop f (Some (R xs)) (Some (R ys)) = map_option R (broadcast f xs ys)"
| "binop f a b = None"

fun rows :: "('x, 'z) val option list \<Rightarrow> real list list option" where
  "rows [] = Some []"
| "rows (Some (R r) # vs) = (case rows vs of None \<Rightarrow> None | Some rs \<Rightarrow> Some (r # rs))"
| "rows (v # vs) = None"

fun tval :: "('x, 'z) interp \<Rightarrow> tensor \<Rightarrow> ('x, 'z) val option" where
  "tval I (Constant c) = Some (R [c])"
| "tval I (Data_sample n) = Some (X (data_sample_of I n))"
| "tval I (Variational_sample n) = Some (Z (variational_sample_of I n))"
| "tval I (Util_stop_gradient t) = tval I t"
| "tval I (Tf_stop_gradient t) = tval I t"
| "tval I (Variational_log_prob t) =
     (case tval I t of Some (Z z) \<Rightarrow> Some (R (log_prob_q I z)) | _ \<Rightarrow> None)"
| "tval I Variational_entropy = Some (R [entropy_q I])"
| "tval I (Model_log_prob a b) =
     (case (tval I a, tval I b) of
        (Some (X x), Some (Z z)) \<Rightarrow> Some (R (log_prob_p I x z))
      | _ \<Rightarrow> None)"
| "tval I (Model_log_lik a b) =
     (case (tval I a, tval I b) of
        (Some (X x), Some (Z z)) \<Rightarrow> Some (R (log_lik_p I x z))
      | _ \<Rightarrow> None)"
| "tval I (Layer_loc i) = Some (R (loc_of I i))"
| "tval I (Layer_scale i) = Some (R (scale_of I i))"
| "tval I (Pack ts) = map_option M (rows (map (tval I) ts))"
| "tval I (Kl_multivariate_normal a b) =
     (case (tval I a, tval I b) of
        (Some (M mu), Some (M sigma)) \<Rightarrow> Some (R [kl_of I mu sigma])
      | _ \<Rightarrow> None)"
| "tval I (Log_sum_exp t) =
     (case tval I t of Some (R xs) \<Rightarrow> map_option (\<lambda>s. R [s]) (log_sum_exp xs) | _ \<Rightarrow> None)"
| "tval I (Reduce_mean t) =
     (case tval I t of
        Some (R xs) \<Rightarrow> if xs = [] then None else Some (R [mean xs])
      | _ \<Rightarrow> None)"
| "tval I (Squeeze t) = tval I t"
| "tval I (Exp t) = (case tval I t of Some (R xs) \<Rightarrow> Some (R (map exp xs)) | _ \<Rightarrow> None)"
| "tval I (Neg t) = (case tval I t of Some (R xs) \<Rightarrow> Some (R (map uminus xs)) | _ \<Rightarrow> None)"
| "tval I (Add a b) = binop (+) (tval I a) (tval I b)"
| "tval I (Sub a b) = binop (-) (tval I a) (tval I b)"
| "tval I (Mul a b) = binop (*) (tval I a) (tval I b)"

text \<open>
  The nodes that backpropagation from a root reaches: the root, and the nodes reached
  from its arguments, except that nothing is reached through a frozen copy.
\<close>

fun backprop :: "tensor \<Rightarrow> tensor set" where
  "backprop (Util_stop_gradient t) = {Util_stop_gradient t}"
| "backprop (Tf_stop_gradient t) = {Tf_stop_gradient t}"
| "backprop (Variational_log_prob t) = insert (Variational_log_prob t) (backprop t)"
| "backprop (Model_log_prob a b) = insert (Model_log_prob a b) (backprop a \<union> backprop b)"
| "backprop (Model_log_lik a b) = insert (Model_log_lik a b) (backprop a \<union> backprop b)"
| "backprop (Pack ts) = insert (Pack ts) (\<Union>t \<in> set ts. backprop t)"
| "backprop (Kl_multivariate_normal a b) =
     insert (Kl_multivariate_normal a b) (backprop a \<union> backprop b)"
| "backprop (Log_sum_exp t) = insert (Log_sum_exp t) (backprop t)"
| "backprop (Reduce_mean t) = insert (Reduce_mean t) (backprop t)"
| "backprop (Squeeze t) = insert (Squeeze t) (backprop t)"
| "backprop (Exp t) = insert (Exp t) (backprop t)"
| "backprop (Neg t) = insert (Neg t) (backprop t)"
| "backprop (Add a b) = insert (Add a b) (backprop a \<union> backprop b)"
| "backprop (Sub a b) = insert (Sub a b) (backprop a \<union> backprop b)"
| "backprop (Mul a b) = insert (Mul a b) (backprop a \<union> backprop b)"
| "backprop t = {t}"

text \<open>The calls to \<open>update\<close> in a trace.\<close>

fun is_update :: "event \<Rightarrow> bool" where
  "is_update (Update r) = True"
| "is_update e = False"

section \<open>Concrete objects\<close>

text \<open>
  A session whose state counts the steps made and whose loss at step \<open>k\<close> is \<open>k\<close>;
  a rendering of a real with two decimals, a tie rounded to the even digit as \<open>{:.2f}\<close>
  does; a model with two latent variables and no \<open>log_lik\<close>; one without \<open>num_vars\<close>;
  a Gaussian family that supports reparameterisation and one that does not.
\<close>

definition demo_sess_run :: "train_op \<Rightarrow> tensor \<Rightarrow> nat \<Rightarrow> real \<times> nat" where
  "demo_sess_run tr l k = (real k, Suc k)"

definition demo_init_run :: "nat \<Rightarrow> nat" where
  "demo_init_run k = 0"

definition round_half_even :: "real \<Rightarrow> int" where
  "round_half_even y =
     (let f = \<lfloor>y\<rfloor>; r = y - of_int f
      in if r < 1 / 2 then f
         else if 1 / 2 < r then f + 1
         else if even f then f else f + 1)"

definition demo_format_2f :: "real \<Rightarrow> string" where
  "demo_format_2f v =
     (let q = nat (round_half_even (\<bar>v\<bar> * 100))
      in (if v < 0 then ''-'' else []) @ string_of_nat (q div 100) @ ''.'' @
         string_of_nat (q div 10 mod 10) @ string_of_nat (q mod 10))"

definition demo_str_variational :: "variational \<Rightarrow> nat \<Rightarrow> string" where
  "demo_str_variational v k = ''variational''"

definition demo_env :: "nat env" where
  "demo_env = \<lparr>sess_run = demo_sess_run, init_run = demo_init_run, prettytensor = True,
               format_2f = demo_format_2f, str_variational = demo_str_variational\<rparr>"

definition demo_model :: model where
  "demo_model = \<lparr>num_vars = Some 2, has_log_lik = False\<rparr>"

definition demo_model_no_num_vars :: model where
  "demo_model_no_num_vars = \<lparr>num_vars = None, has_log_lik = False\<rparr>"

definition demo_map :: "(unit, nat) inference" where
  "demo_map = VariationalInference_init demo_model (add (PointMass None 2 None) Variational) () 0"

definition demo_gaussian :: variational where
  "demo_gaussian = \<lparr>layers = [Normal 2], is_reparam = True, is_normal = True\<rparr>"

definition demo_not_reparam :: variational where
  "demo_not_reparam = \<lparr>layers = [Normal 2], is_reparam = False, is_normal = True\<rparr>"

definition demo_mfvi :: "(unit, nat) inference" where
  "demo_mfvi = VariationalInference_init demo_model demo_gaussian () 0"

definition demo_mfvi_not_reparam :: "(unit, nat) inference" where
  "demo_mfvi_not_reparam = VariationalInference_init demo_model demo_not_reparam () 0"

text \<open>An interpretation with two latent samples: \<open>log p = [1, 3]\<close>, \<open>log q = [0, 1]\<close>.\<close>

definition demo_log_prob_q :: "unit \<Rightarrow> real list" where
  "demo_log_prob_q z = [0, 1]"

definition demo_log_prob_p :: "unit \<Rightarrow> unit \<Rightarrow> real list" where
  "demo_log_prob_p x z = [1, 3]"

definition demo_const_unit :: "int option \<Rightarrow> unit" where
  "demo_const_unit n = ()"

definition demo_no_params :: "nat \<Rightarrow> real list" where
  "demo_no_params i = []"

definition demo_kl :: "real list list \<Rightarrow> real list list \<Rightarrow> real" where
  "demo_kl mu sigma = 0"

definition demo_interp :: "(unit, unit) interp" where
  "demo_interp = \<lparr>data_sample_of = demo_const_unit, variational_sample_of = demo_const_unit,
                  log_prob_q = demo_log_prob_q, entropy_q = 0, log_prob_p = demo_log_prob_p,
                  log_lik_p = demo_log_prob_p, loc_of = demo_no_params,
                  scale_of = demo_no_params, kl_of = demo_kl\<rparr>"

text \<open>A mean-field instance after the assignments of \<open>initialize\<close>, with two latent
  samples per step, and the nodes its builders start from.\<close>

definition demo_mfvi_ready :: "(unit, nat) inference" where
  "demo_mfvi_ready = demo_mfvi\<lparr>n_data := Some None, n_minibatch := Some 2\<rparr>"

definition demo_x :: tensor where
  "demo_x = Data_sample None"

definition demo_z :: tensor where
  "demo_z = Variational_sample (Some 2)"

definition demo_q :: tensor where
  "demo_q = Variational_log_prob (Util_stop_gradient demo_z)"

definition demo_log_w :: tensor where
  "demo_log_w = Sub (Model_log_prob demo_x demo_z) demo_q"

section \<open>Auxiliary facts\<close>

lemma sum_list_exp_pos: "xs \<noteq> [] \<Longrightarrow> 0 < sum_list (map (\<lambda>x. exp (f x :: real)) xs)"
proof (induction xs)
  case Nil
  then show ?case by simp
next
  case (Cons a xs)
  show ?case
  proof (cases "xs = []")
    case True
    then show ?thesis by simp
  next
    case False
    with Cons.IH have "0 < sum_list (map (\<lambda>x. exp (f x)) xs)" by simp
    moreover have "0 < exp (f a)" by simp
    ultimately show ?thesis by (simp add: add_pos_pos)
  qed
qed

lemma sum_list_exp_shift:
  "sum_list (map (\<lambda>x. exp (x - m)) xs) = sum_list (map exp xs) / exp (m::real)"
  by (induction xs) (simp_all add: exp_diff add_divide_distrib)

lemma reduce_max_Some: "xs \<noteq> [] \<Longrightarrow> \<exists>m. reduce_max xs = Some m"
  by (cases xs) (simp_all add: reduce_max_def)

text \<open>The stable form computes the logarithm of the sum of the exponentials.\<close>

lemma log_sum_exp_eq:
  assumes "xs \<noteq> []"
  shows "log_sum_exp xs = Some (ln (sum_list (map exp xs)))"
proof -
  from assms obtain m where m: "reduce_max xs = Some m"
    using reduce_max_Some by blast
  have pos: "0 < sum_list (map exp xs)"
    using sum_list_exp_pos [OF assms, of "\<lambda>x. x"] by simp
  have "m + ln (sum_list (map (\<lambda>x. exp (x - m)) xs)) = ln (sum_list (map exp xs))"
    using pos by (simp add: sum_list_exp_shift ln_div)
  with m show ?thesis by (simp add: log_sum_exp_def)
qed

lemma broadcast_scalar: "broadcast f xs [s] = Some (map (\<lambda>x. f x s) xs)"
proof (cases "length xs = 1")
  case True
  then obtain x where "xs = [x]" by (cases xs) auto
  then show ?thesis by (simp add: broadcast_def)
next
  case False
  then show ?thesis by (simp add: broadcast_def)
qed

lemma broadcast_same: "length xs = length ys \<Longrightarrow> broadcast f xs ys = Some (map2 f xs ys)"
  by (simp add: broadcast_def)

lemma sum_list_softmax:
  assumes "xs \<noteq> []"
  shows "sum_list (softmax xs) = 1"
proof -
  have pos: "0 < sum_list (map exp xs)"
    using sum_list_exp_pos [OF assms, of "\<lambda>x. x"] by simp
  have "sum_list (map (\<lambda>x. exp x / c) xs) = sum_list (map exp xs) / c" for c :: real
    by (induction xs) (simp_all add: add_divide_distrib)
  then show ?thesis using pos by (simp add: softmax_def)
qed

lemma softmax_not_Nil: "xs \<noteq> [] \<Longrightarrow> softmax xs \<noteq> []"
  by (simp add: softmax_def)

lemma length_softmax: "length (softmax xs) = length xs"
  by (simp add: softmax_def)

lemma ln_softmax:
  assumes "ws \<noteq> []"
  shows "map ln (softmax ws) = map (\<lambda>w. w - ln (sum_list (map exp ws))) ws"
proof -
  have pos: "0 < sum_list (map exp ws)"
    using sum_list_exp_pos [OF assms, of "\<lambda>x. x"] by simp
  then show ?thesis by (simp add: softmax_def ln_div)
qed

lemma exp_log_w_norm:
  assumes "ws \<noteq> []"
  shows "map (\<lambda>w. exp (w - ln (sum_list (map exp ws)))) ws = softmax ws"
proof -
  have pos: "0 < sum_list (map exp ws)"
    using sum_list_exp_pos [OF assms, of "\<lambda>x. x"] by simp
  then show ?thesis by (simp add: softmax_def exp_diff)
qed

lemma tval_log_w_norm:
  assumes "tval I log_w = Some (R ws)" and "ws \<noteq> []"
  shows "tval I (KLpq_log_w_norm log_w) = Some (R (map ln (softmax ws)))"
  using assms by (simp add: KLpq_log_w_norm_def log_sum_exp_eq broadcast_scalar ln_softmax)

lemma tval_w_norm:
  assumes "tval I log_w = Some (R ws)" and "ws \<noteq> []"
  shows "tval I (KLpq_w_norm log_w) = Some (R (softmax ws))"
proof -
  have "tval I (KLpq_log_w_norm log_w) = Some (R (map (\<lambda>w. w - ln (sum_list (map exp ws))) ws))"
    using assms by (simp add: KLpq_log_w_norm_def log_sum_exp_eq broadcast_scalar)
  then have "tval I (KLpq_w_norm log_w) =
      Some (R (map (\<lambda>w. exp (w - ln (sum_list (map exp ws)))) ws))"
    by (simp add: KLpq_w_norm_def comp_def)
  then show ?thesis using assms(2) by (simp add: exp_log_w_norm)
qed

lemmas builders =
  MFVI_build_score_loss_def MFVI_build_reparam_loss_def MFVI_build_score_loss_kl_def
  MFVI_build_reparam_loss_kl_def MFVI_build_score_loss_entropy_def
  MFVI_build_reparam_loss_entropy_def

text \<open>
  The loop over any list of iteration indices, when no method raises: the states before
  each iteration \<open>ss\<close>, the values \<open>vs\<close> and the states \<open>us\<close> that \<open>update\<close>
  returns, chained by the two methods.
\<close>

lemma run_loop_trace:
  assumes upd: "\<And>s. Inv s \<Longrightarrow> \<exists>v s'. update' s = (Inr v, s') \<and> Inv s'"
    and pp: "\<And>t v s. Inv s \<Longrightarrow> \<exists>s'. print_progress' t v s = (Inr (), s') \<and> Inv s'"
  shows "Inv s \<Longrightarrow> \<exists>vs us ss.
     length vs = length ts \<and> length us = length ts \<and> length ss = Suc (length ts) \<and>
     ss ! 0 = s \<and> Inv (ss ! length ts) \<and>
     (\<forall>i < length ts.
        update' (ss ! i) = (Inr (vs ! i), us ! i) \<and>
        print_progress' (ts ! i) (vs ! i) (us ! i) = (Inr (), ss ! Suc i)) \<and>
     run_loop update' print_progress' ts s =
       ((Inr (), ss ! length ts),
        concat (map (\<lambda>(t, v). [Update (Inr v), Print_progress t v]) (zip ts vs)))"
proof (induction ts arbitrary: s)
  case Nil
  have "length ([] :: real list) = length ([] :: int list) \<and>
     length ([] :: 'a list) = length ([] :: int list) \<and>
     length [s] = Suc (length ([] :: int list)) \<and>
     [s] ! 0 = s \<and> Inv ([s] ! length ([] :: int list)) \<and>
     (\<forall>i < length ([] :: int list).
        update' ([s] ! i) = (Inr ([] ! i), [] ! i) \<and>
        print_progress' ([] ! i) ([] ! i) ([] ! i) = (Inr (), [s] ! Suc i)) \<and>
     run_loop update' print_progress' [] s =
       ((Inr (), [s] ! length ([] :: int list)),
        concat (map (\<lambda>(t, v). [Update (Inr v), Print_progress t v]) (zip [] [])))"
    using Nil by simp
  then show ?case
    by (intro exI)
next
  case (Cons t ts)
  from upd [OF Cons.prems] obtain v s1 where u: "update' s = (Inr v, s1)" and i1: "Inv s1"
    by (elim exE conjE)
  from pp [OF i1, of t v] obtain s2 where p: "print_progress' t v s1 = (Inr (), s2)" and i2: "Inv s2"
    by (elim exE conjE)
  from Cons.IH [OF i2] obtain vs us ss where
    lv: "length vs = length ts" and lu: "length us = length ts" and
    ls: "length ss = Suc (length ts)" and s0: "ss ! 0 = s2" and i': "Inv (ss ! length ts)" and
    ch: "\<forall>i < length ts.
        update' (ss ! i) = (Inr (vs ! i), us ! i) \<and>
        print_progress' (ts ! i) (vs ! i) (us ! i) = (Inr (), ss ! Suc i)" and
    r: "run_loop update' print_progress' ts s2 =
       ((Inr (), ss ! length ts),
        concat (map (\<lambda>(t, v). [Update (Inr v), Print_progress t v]) (zip ts vs)))"
    by (elim exE conjE)
  have chain: "\<forall>i < length (t # ts).
        update' ((s # ss) ! i) = (Inr ((v # vs) ! i), (s1 # us) ! i) \<and>
        print_progress' ((t # ts) ! i) ((v # vs) ! i) ((s1 # us) ! i) =
          (Inr (), (s # ss) ! Suc i)"
  proof (intro allI impI)
    fix i
    assume "i < length (t # ts)"
    show "update' ((s # ss) ! i) = (Inr ((v # vs) ! i), (s1 # us) ! i) \<and>
        print_progress' ((t # ts) ! i) ((v # vs) ! i) ((s1 # us) ! i) =
          (Inr (), (s # ss) ! Suc i)"
    proof (cases i)
      case 0
      then show ?thesis using u p s0 by simp
    next
      case (Suc k)
      then have "k < length ts" using \<open>i < length (t # ts)\<close> by simp
      then have "update' (ss ! k) = (Inr (vs ! k), us ! k) \<and>
        print_progress' (ts ! k) (vs ! k) (us ! k) = (Inr (), ss ! Suc k)"
        using ch by simp
      then show ?thesis using Suc by simp
    qed
  qed
  have run: "run_loop update' print_progress' (t # ts) s =
      ((Inr (), (s # ss) ! length (t # ts)),
       concat (map (\<lambda>(t, v). [Update (Inr v), Print_progress t v]) (zip (t # ts) (v # vs))))"
    using u p r by simp
  have l1: "length (v # vs) = length (t # ts)" using lv by simp
  have l2: "length (s1 # us) = length (t # ts)" using lu by simp
  have l3: "length (s # ss) = Suc (length (t # ts))" using ls by simp
  have l4: "(s # ss) ! 0 = s" by simp
  have l5: "Inv ((s # ss) ! length (t # ts))" using i' by simp
  from l1 l2 l3 l4 l5 chain run
  have "length (v # vs) = length (t # ts) \<and> length (s1 # us) = length (t # ts) \<and>
     length (s # ss) = Suc (length (t # ts)) \<and> (s # ss) ! 0 = s \<and>
     Inv ((s # ss) ! length (t # ts)) \<and>
     (\<forall>i < length (t # ts).
        update' ((s # ss) ! i) = (Inr ((v # vs) ! i), (s1 # us) ! i) \<and>
        print_progress' ((t # ts) ! i) ((v # vs) ! i) ((s1 # us) ! i) =
          (Inr (), (s # ss) ! Suc i)) \<and>
     run_loop update' print_progress' (t # ts) s =
      ((Inr (), (s # ss) ! length (t # ts)),
       concat (map (\<lambda>(t, v). [Update (Inr v), Print_progress t v]) (zip (t # ts) (v # vs))))"
    by (intro conjI)
  then show ?case
    by (intro exI)
qed

lemma filter_update_pairs:
  "length (filter is_update
     (concat (map (\<lambda>(t, v). [Update (Inr v), Print_progress t v]) ps))) = length ps"
  by (induction ps) auto

lemma filter_finalize_pairs:
  "filter ((=) Finalize) (concat (map (\<lambda>(t, v). [Update (Inr v), Print_progress t v]) ps)) = []"
  by (induction ps) auto





section \<open>The claims\<close>

text \<open>
  C1: when \<open>initialize\<close> returns and leaves \<open>self.n_iter = n\<close>, and no method raises
  on the states the run goes through, \<open>run\<close> does the following and nothing else.
  Starting from the state \<open>initialize\<close> left, for each \<open>t = 0 .. n\<close> it applies
  \<open>update\<close> to the current state, then applies \<open>print_progress\<close> to \<open>t\<close>, to the
  loss value that this very call of \<open>update\<close> returned and to the state \<open>update\<close>
  left; it then applies \<open>finalize\<close> to the state after the last iteration, and its
  result is the one of \<open>finalize\<close>.  The calls it makes are, in order, \<open>initialize\<close>,
  the pairs of \<open>update\<close> and \<open>print_progress(t, loss)\<close>, and \<open>finalize\<close>: one
  \<open>update\<close> per index of \<open>range(n + 1)\<close>, that is \<open>n + 1\<close> for \<open>n \<ge> 0\<close>, and
  exactly one \<open>finalize\<close>.
\<close>

theorem run_call_sequence:
  assumes init: "initialize' st = (Inr (), st1)" and n: "n_iter st1 = Some n" and inv: "Inv st1"
    and upd: "\<And>s. Inv s \<Longrightarrow> \<exists>v s'. update' s = (Inr v, s') \<and> Inv s'"
    and pp: "\<And>t v s. Inv s \<Longrightarrow> \<exists>s'. print_progress' t v s = (Inr (), s') \<and> Inv s'"
    and fin: "\<And>s. Inv s \<Longrightarrow> \<exists>s'. finalize' s = (Inr (), s')"
  shows "\<exists>vs us ss sf.
     length vs = nat (n + 1) \<and> length us = nat (n + 1) \<and> length ss = Suc (nat (n + 1)) \<and>
     ss ! 0 = st1 \<and>
     (\<forall>i < nat (n + 1).
        update' (ss ! i) = (Inr (vs ! i), us ! i) \<and>
        print_progress' (int i) (vs ! i) (us ! i) = (Inr (), ss ! Suc i)) \<and>
     finalize' (ss ! nat (n + 1)) = (Inr (), sf) \<and>
     run initialize' update' print_progress' finalize' st =
       ((Inr (), sf),
        Initialize #
        concat (map (\<lambda>(t, v). [Update (Inr v), Print_progress t v]) (zip [0..n] vs)) @
        [Finalize]) \<and>
     length (filter is_update (snd (run initialize' update' print_progress' finalize' st))) =
       nat (n + 1) \<and>
     (0 \<le> n \<longrightarrow>
       int (length (filter is_update
              (snd (run initialize' update' print_progress' finalize' st)))) = n + 1) \<and>
     length (filter ((=) Finalize)
       (snd (run initialize' update' print_progress' finalize' st))) = 1"
proof -
  have len: "length [0..n] = nat (n + 1)"
    by simp
  have "\<exists>vs us ss.
     length vs = length [0..n] \<and> length us = length [0..n] \<and>
     length ss = Suc (length [0..n]) \<and>
     ss ! 0 = st1 \<and> Inv (ss ! length [0..n]) \<and>
     (\<forall>i < length [0..n].
        update' (ss ! i) = (Inr (vs ! i), us ! i) \<and>
        print_progress' ([0..n] ! i) (vs ! i) (us ! i) = (Inr (), ss ! Suc i)) \<and>
     run_loop update' print_progress' [0..n] st1 =
       ((Inr (), ss ! length [0..n]),
        concat (map (\<lambda>(t, v). [Update (Inr v), Print_progress t v]) (zip [0..n] vs)))"
    by (rule run_loop_trace [where Inv = Inv, OF upd pp inv])
  then
  obtain vs us ss where
    lv0: "length vs = length [0..n]" and lu0: "length us = length [0..n]" and
    ls0: "length ss = Suc (length [0..n])" and s0: "ss ! 0 = st1" and
    i0: "Inv (ss ! length [0..n])" and
    ch: "\<forall>i < length [0..n].
        update' (ss ! i) = (Inr (vs ! i), us ! i) \<and>
        print_progress' ([0..n] ! i) (vs ! i) (us ! i) = (Inr (), ss ! Suc i)" and
    r0: "run_loop update' print_progress' [0..n] st1 =
       ((Inr (), ss ! length [0..n]),
        concat (map (\<lambda>(t, v). [Update (Inr v), Print_progress t v]) (zip [0..n] vs)))"
    by (elim exE conjE)
  have lv: "length vs = nat (n + 1)" using lv0 len by simp
  have lu: "length us = nat (n + 1)" using lu0 len by simp
  have ls: "length ss = Suc (nat (n + 1))" using ls0 len by simp
  have i': "Inv (ss ! nat (n + 1))" using i0 len by simp
  have r: "run_loop update' print_progress' [0..n] st1 =
       ((Inr (), ss ! nat (n + 1)),
        concat (map (\<lambda>(t, v). [Update (Inr v), Print_progress t v]) (zip [0..n] vs)))"
    using r0 len by simp
  have ch': "\<forall>i < nat (n + 1).
        update' (ss ! i) = (Inr (vs ! i), us ! i) \<and>
        print_progress' (int i) (vs ! i) (us ! i) = (Inr (), ss ! Suc i)"
  proof (intro allI impI)
    fix i
    assume b: "i < nat (n + 1)"
    then have "i < length [0..n]" using len by simp
    then have c: "update' (ss ! i) = (Inr (vs ! i), us ! i) \<and>
        print_progress' ([0..n] ! i) (vs ! i) (us ! i) = (Inr (), ss ! Suc i)"
      using ch by simp
    have "[0..n] ! i = int i"
      using b by (simp add: nth_upto)
    with c show "update' (ss ! i) = (Inr (vs ! i), us ! i) \<and>
        print_progress' (int i) (vs ! i) (us ! i) = (Inr (), ss ! Suc i)"
      by simp
  qed
  from fin [OF i'] obtain sf where f: "finalize' (ss ! nat (n + 1)) = (Inr (), sf)"
    by (elim exE)
  have tr: "run initialize' update' print_progress' finalize' st =
     ((Inr (), sf),
      Initialize #
      concat (map (\<lambda>(t, v). [Update (Inr v), Print_progress t v]) (zip [0..n] vs)) @
      [Finalize])"
    using init n r f by (simp add: run_def)
  have lz: "length (zip [0..n] vs) = nat (n + 1)"
    using lv by simp
  have c1: "length (filter is_update
      (snd (run initialize' update' print_progress' finalize' st))) = nat (n + 1)"
    using lz by (simp add: tr filter_update_pairs)
  have c2: "0 \<le> n \<longrightarrow>
       int (length (filter is_update
              (snd (run initialize' update' print_progress' finalize' st)))) = n + 1"
    using c1 by simp
  have c3: "length (filter ((=) Finalize)
       (snd (run initialize' update' print_progress' finalize' st))) = 1"
    by (simp add: tr filter_finalize_pairs)
  from lv lu ls s0 ch' f tr c1 c2 c3
  have "length vs = nat (n + 1) \<and> length us = nat (n + 1) \<and> length ss = Suc (nat (n + 1)) \<and>
     ss ! 0 = st1 \<and>
     (\<forall>i < nat (n + 1).
        update' (ss ! i) = (Inr (vs ! i), us ! i) \<and>
        print_progress' (int i) (vs ! i) (us ! i) = (Inr (), ss ! Suc i)) \<and>
     finalize' (ss ! nat (n + 1)) = (Inr (), sf) \<and>
     run initialize' update' print_progress' finalize' st =
       ((Inr (), sf),
        Initialize #
        concat (map (\<lambda>(t, v). [Update (Inr v), Print_progress t v]) (zip [0..n] vs)) @
        [Finalize]) \<and>
     length (filter is_update (snd (run initialize' update' print_progress' finalize' st))) =
       nat (n + 1) \<and>
     (0 \<le> n \<longrightarrow>
       int (length (filter is_update
              (snd (run initialize' update' print_progress' finalize' st)))) = n + 1) \<and>
     length (filter ((=) Finalize)
       (snd (run initialize' update' print_progress' finalize' st))) = 1"
    by (intro conjI)
  then show ?thesis
    by (intro exI)
qed

theorem run_call_sequence_witness:
  "run (VariationalInference_initialize demo_env MAP_build_loss 2 None (Some 2) None None)
      (VariationalInference_update demo_env) (print_progress demo_env) finalize demo_map =
     ((Inr (),
       demo_map\<lparr>n_iter := Some 2, n_data := Some None, n_print := Some (Some 2),
         loss := Some (Squeeze (Model_log_prob (Data_sample None) (Variational_sample None))),
         train := Some (Adam_decay_minimize (1 / 10) 100 (9 / 10) True
           (Neg (Squeeze (Model_log_prob (Data_sample None) (Variational_sample None)))) None),
         session := 3,
         stdout := [''iter 0 loss 0.00'', ''variational'', ''iter 2 loss 2.00'',
           ''variational'']\<rparr>),
      [Initialize, Update (Inr 0), Print_progress 0 0, Update (Inr 1), Print_progress 1 1,
       Update (Inr 2), Print_progress 2 2, Finalize])
   \<and> length (filter is_update
       (snd (run (VariationalInference_initialize demo_env MAP_build_loss 2 None (Some 2) None None)
          (VariationalInference_update demo_env) (print_progress demo_env) finalize demo_map))) =
     nat (2 + 1)"
proof -
  let ?init = "VariationalInference_initialize demo_env MAP_build_loss 2 None (Some 2) None None"
  let ?upd = "VariationalInference_update demo_env"
  let ?pp = "print_progress demo_env"
  define st1 where "st1 = snd (?init demo_map)"
  define Inv :: "(unit, nat) inference \<Rightarrow> bool" where
    "Inv = (\<lambda>s. train s \<noteq> None \<and> loss s \<noteq> None \<and> n_print s = Some (Some 2))"
  have h1: "?init demo_map = (Inr (), st1)"
    by (simp add: st1_def VariationalInference_initialize_def MAP_build_loss_def Let_def)
  have h2: "n_iter st1 = Some 2"
    by (simp add: st1_def VariationalInference_initialize_def MAP_build_loss_def Let_def)
  have h3: "Inv st1"
    by (simp add: Inv_def st1_def VariationalInference_initialize_def MAP_build_loss_def Let_def)
  have h4: "\<exists>v s'. ?upd s = (Inr v, s') \<and> Inv s'" if "Inv s" for s
    using that
    by (auto simp add: Inv_def VariationalInference_update_def demo_env_def demo_sess_run_def)
  have h5: "\<exists>s'. ?pp t v s = (Inr (), s') \<and> Inv s'" if "Inv s" for t v s
    using that by (auto simp add: Inv_def print_progress_def)
  have h6: "\<exists>s'. finalize s = (Inr (), s')" if "Inv s" for s
    by (simp add: finalize_def)
  have e: "run ?init ?upd ?pp finalize demo_map =
     ((Inr (),
       demo_map\<lparr>n_iter := Some 2, n_data := Some None, n_print := Some (Some 2),
         loss := Some (Squeeze (Model_log_prob (Data_sample None) (Variational_sample None))),
         train := Some (Adam_decay_minimize (1 / 10) 100 (9 / 10) True
           (Neg (Squeeze (Model_log_prob (Data_sample None) (Variational_sample None)))) None),
         session := 3,
         stdout := [''iter 0 loss 0.00'', ''variational'', ''iter 2 loss 2.00'',
           ''variational'']\<rparr>),
      [Initialize, Update (Inr 0), Print_progress 0 0, Update (Inr 1), Print_progress 1 1,
       Update (Inr 2), Print_progress 2 2, Finalize])"
    by code_simp
  have "\<exists>vs us ss sf.
     length vs = nat (2 + 1) \<and> length us = nat (2 + 1) \<and> length ss = Suc (nat (2 + 1)) \<and>
     ss ! 0 = st1 \<and>
     (\<forall>i < nat (2 + 1).
        ?upd (ss ! i) = (Inr (vs ! i), us ! i) \<and>
        ?pp (int i) (vs ! i) (us ! i) = (Inr (), ss ! Suc i)) \<and>
     finalize (ss ! nat (2 + 1)) = (Inr (), sf) \<and>
     run ?init ?upd ?pp finalize demo_map =
       ((Inr (), sf),
        Initialize #
        concat (map (\<lambda>(t, v). [Update (Inr v), Print_progress t v]) (zip [0..2] vs)) @
        [Finalize]) \<and>
     length (filter is_update (snd (run ?init ?upd ?pp finalize demo_map))) = nat (2 + 1) \<and>
     (0 \<le> (2::int) \<longrightarrow>
       int (length (filter is_update (snd (run ?init ?upd ?pp finalize demo_map)))) = 2 + 1) \<and>
     length (filter ((=) Finalize) (snd (run ?init ?upd ?pp finalize demo_map))) = 1"
    by (rule run_call_sequence [where Inv = Inv and initialize' = ?init and update' = ?upd
          and print_progress' = ?pp and finalize' = finalize and st = demo_map and n = 2, OF h1 h2 h3 h4 h5 h6])
  then have cnt: "length (filter is_update (snd (run ?init ?upd ?pp finalize demo_map))) =
      nat (2 + 1)"
    by (elim exE conjE)
  show ?thesis
    by (rule conjI [OF e cnt])
qed

text \<open>
  C10: for a model without \<open>num_vars\<close>, constructing MAP succeeds with the point mass
  \<open>PointMass(0)\<close>, which has zero free parameters, whatever initial parameter values
  were supplied, and constructing Laplace fails on reading \<open>model.num_vars\<close>.
\<close>

theorem MAP_init_without_num_vars:
  assumes "num_vars m = None"
  shows "MAP_init m d params e =
           Inr (VariationalInference_init m (add (PointMass None 0 None) Variational) d e)
    \<and> map num_params (layers (add (PointMass None 0 None) Variational)) = [0]
    \<and> MAP_init m d params e = MAP_init m d None e
    \<and> Laplace_init m d params e = Inl (AttributeError ''num_vars'')"
  using assms by (simp add: MAP_init_def Laplace_init_def add_def Variational_def)

theorem MAP_init_without_num_vars_witness:
  "num_vars demo_model_no_num_vars = None
   \<and> MAP_init demo_model_no_num_vars () (Some [1, 2]) (0::nat) =
       Inr (VariationalInference_init demo_model_no_num_vars
              (add (PointMass None 0 None) Variational) () 0)
   \<and> Laplace_init demo_model_no_num_vars () (Some [1, 2]) (0::nat) =
       Inl (AttributeError ''num_vars'')"
proof -
  have h: "num_vars demo_model_no_num_vars = None"
    by (simp add: demo_model_no_num_vars_def)
  show ?thesis
    using h MAP_init_without_num_vars [OF h, of "()" "Some [1, 2]" "0::nat"] by simp
qed

text \<open>
  C9: \<open>Laplace.build_loss\<close> and \<open>MAP.build_loss\<close> are the same function of the
  instance: both store the squeezed \<open>log_prob(x, z)\<close> of the one point-mass sample as
  the reportable loss and return its negation.  The constructors differ only in the
  variable scope of the point mass, which is \<open>"variational"\<close> for Laplace.
\<close>

theorem Laplace_build_loss_eq_MAP_build_loss:
  "Laplace_build_loss st = MAP_build_loss st
   \<and> (n_data st = Some nd \<longrightarrow>
        MAP_build_loss st =
          (Inr (Neg (Squeeze (Model_log_prob (Data_sample nd) (Variational_sample None)))),
           st\<lparr>loss := Some (Squeeze (Model_log_prob (Data_sample nd) (Variational_sample None)))\<rparr>))
   \<and> (num_vars m = Some k \<longrightarrow>
        MAP_init m d params e =
          Inr (VariationalInference_init m (add (PointMass None k params) Variational) d e)
        \<and> Laplace_init m d params e =
          Inr (VariationalInference_init m
                 (add (PointMass (Some ''variational'') k params) Variational) d e))"
  by (simp add: MAP_build_loss_def Laplace_build_loss_def Let_def MAP_init_def Laplace_init_def)

theorem Laplace_build_loss_eq_MAP_build_loss_witness:
  "n_data (demo_map\<lparr>n_data := Some None\<rparr>) = Some None
   \<and> num_vars demo_model = Some 2
   \<and> Laplace_build_loss (demo_map\<lparr>n_data := Some None\<rparr>) =
       (Inr (Neg (Squeeze (Model_log_prob (Data_sample None) (Variational_sample None)))),
        demo_map\<lparr>n_data := Some None,
          loss := Some (Squeeze (Model_log_prob (Data_sample None) (Variational_sample None)))\<rparr>)
   \<and> Laplace_init demo_model () None (0::nat) =
       Inr (VariationalInference_init demo_model
              (add (PointMass (Some ''variational'') 2 None) Variational) () 0)"
proof -
  have h1: "n_data (demo_map\<lparr>n_data := Some None\<rparr>) = Some None" by simp
  have h2: "num_vars demo_model = Some 2" by (simp add: demo_model_def)
  show ?thesis
    using h1 h2
      Laplace_build_loss_eq_MAP_build_loss
        [of "demo_map\<lparr>n_data := Some None\<rparr>" None demo_model 2 "()" None "0::nat"]
    by simp
qed

text \<open>
  C8: \<open>print_progress(t, loss)\<close> prints nothing when \<open>n_print\<close> is \<open>None\<close>.  When
  \<open>n_print\<close> is a number other than zero, it prints exactly when \<open>t\<close> is a multiple
  of \<open>n_print\<close>, and then it prints two lines: the iteration index with the loss
  rendered by \<open>{:.2f}\<close>, and the variational family.
\<close>

theorem print_progress_output:
  assumes "n_print st = Some np"
  shows "(np = None \<longrightarrow> print_progress ev t v st = (Inr (), st))
   \<and> (\<forall>n. np = Some n \<and> n \<noteq> 0 \<longrightarrow>
        fst (print_progress ev t v st) = Inr ()
        \<and> (stdout (snd (print_progress ev t v st)) \<noteq> stdout st \<longleftrightarrow> n dvd t)
        \<and> (n dvd t \<longrightarrow>
             snd (print_progress ev t v st) =
               st\<lparr>stdout := stdout st @
                  [''iter '' @ format_d t @ '' loss '' @ format_2f ev v,
                   str_variational ev (variational st) (session st)]\<rparr>)
        \<and> (\<not> n dvd t \<longrightarrow> snd (print_progress ev t v st) = st))"
  using assms by (auto simp add: print_progress_def dvd_eq_mod_eq_0)

theorem print_progress_output_witness:
  "n_print (demo_map\<lparr>n_print := Some (Some 100)\<rparr>) = Some (Some 100)
   \<and> stdout (snd (print_progress demo_env 200 (5 / 2) (demo_map\<lparr>n_print := Some (Some 100)\<rparr>))) =
       [''iter 200 loss 2.50'', ''variational'']
   \<and> snd (print_progress demo_env 250 (5 / 2) (demo_map\<lparr>n_print := Some (Some 100)\<rparr>)) =
       demo_map\<lparr>n_print := Some (Some 100)\<rparr>"
proof -
  have h: "n_print (demo_map\<lparr>n_print := Some (Some 100)\<rparr>) = Some (Some 100)" by simp
  have d1: "(100::int) dvd 200" by simp
  have d2: "\<not> (100::int) dvd 250" by presburger
  have f1: "format_d 200 = ''200''" by code_simp
  have f2: "format_2f demo_env (5 / 2) = ''2.50''" by code_simp
  have f3: "str_variational demo_env vv k = ''variational''" for vv k
    by (simp add: demo_env_def demo_str_variational_def)
  have f4: "stdout demo_map = []" by (simp add: demo_map_def VariationalInference_init_def)
  have a: "stdout (snd (print_progress demo_env 200 (5 / 2) (demo_map\<lparr>n_print := Some (Some 100)\<rparr>))) =
      [''iter '' @ format_d 200 @ '' loss '' @ format_2f demo_env (5 / 2), ''variational'']"
    using print_progress_output [OF h, of demo_env 200 "5 / 2"] d1 by (simp add: f3 f4)
  have b: "snd (print_progress demo_env 250 (5 / 2) (demo_map\<lparr>n_print := Some (Some 100)\<rparr>)) =
      demo_map\<lparr>n_print := Some (Some 100)\<rparr>"
    using print_progress_output [OF h, of demo_env 250 "5 / 2"] d2 by simp
  show ?thesis using h b by (simp add: a f1 f2)
qed

text \<open>
  C7: for every non-empty vector \<open>logw\<close> of log-weights, the weights that
  \<open>KLpq.build_loss\<close> computes as \<open>exp(logw - log_sum_exp(logw))\<close> are the softmax of
  \<open>logw\<close> and sum to one in exact arithmetic, and \<open>logw - log_sum_exp(logw)\<close> is the
  logarithm of that softmax.
\<close>

theorem KLpq_w_norm_sums_to_one:
  assumes "tval I log_w = Some (R ws)" and "ws \<noteq> []"
  shows "tval I (KLpq_w_norm log_w) = Some (R (softmax ws))
    \<and> sum_list (softmax ws) = 1
    \<and> tval I (KLpq_log_w_norm log_w) = Some (R (map ln (softmax ws)))"
  using assms by (simp add: tval_w_norm tval_log_w_norm sum_list_softmax)

theorem KLpq_w_norm_sums_to_one_witness:
  "tval demo_interp demo_log_w = Some (R [1, 2])
   \<and> [1, 2 :: real] \<noteq> []
   \<and> tval demo_interp (KLpq_w_norm demo_log_w) = Some (R (softmax [1, 2]))
   \<and> sum_list (softmax [1, 2]) = 1
   \<and> tval demo_interp (KLpq_log_w_norm demo_log_w) = Some (R (map ln (softmax [1, 2])))"
proof -
  have h1: "tval demo_interp demo_log_w = Some (R [1, 2])"
    by (simp add: demo_log_w_def demo_q_def demo_x_def demo_z_def demo_interp_def
        demo_log_prob_p_def demo_log_prob_q_def broadcast_def)
  have h2: "[1, 2 :: real] \<noteq> []" by simp
  show ?thesis using h1 h2 KLpq_w_norm_sums_to_one [OF h1 h2] by simp
qed

text \<open>
  C5: the plain score loss of MFVI.  With \<open>z\<close> the sample node of the variational
  family and \<open>x\<close> the sample node of the data, the log-weight is
  \<open>log_prob_model(x, z)\<close> minus the variational log-density taken at a gradient-blocked
  copy of \<open>z\<close>; the reportable loss is its mean, of value \<open>mean(log p - log q)\<close>; the
  returned expression is the negative mean of that log-density times a frozen copy of
  the log-weight, of value \<open>- mean(log q * (log p - log q))\<close>; and backpropagation from
  the returned expression reaches the log-density but neither the sample \<open>z\<close> nor
  anything inside the frozen log-weight.
\<close>

theorem MFVI_build_score_loss_estimator:
  assumes nd: "n_data st = Some nd" and nm: "n_minibatch st = Some nm"
    and z: "z = Variational_sample (Some nm)" and x: "x = Data_sample nd"
    and q: "q = Variational_log_prob (Util_stop_gradient z)"
    and logw: "logw = Sub (Model_log_prob x z) q"
    and ret: "ret = Neg (Reduce_mean (Mul q (Tf_stop_gradient logw)))"
    and lp: "log_prob_p I (data_sample_of I nd) (variational_sample_of I (Some nm)) = lp"
    and lq: "log_prob_q I (variational_sample_of I (Some nm)) = lq"
    and len: "length lp = length lq" and ne: "lq \<noteq> []"
  shows "MFVI_build_score_loss st = (Inr ret, st\<lparr>zs := Some z, loss := Some (Reduce_mean logw)\<rparr>)
     \<and> tval I logw = Some (R (map2 (-) lp lq))
     \<and> tval I (Reduce_mean logw) = Some (R [mean (map2 (-) lp lq)])
     \<and> tval I ret = Some (R [- mean (map2 (*) lq (map2 (-) lp lq))])
     \<and> backprop ret =
         {ret, Reduce_mean (Mul q (Tf_stop_gradient logw)), Mul q (Tf_stop_gradient logw),
          q, Util_stop_gradient z, Tf_stop_gradient logw}
     \<and> z \<notin> backprop ret \<and> logw \<notin> backprop ret \<and> Model_log_prob x z \<notin> backprop ret"
proof -
  have b: "MFVI_build_score_loss st =
      (Inr ret, st\<lparr>zs := Some z, loss := Some (Reduce_mean logw)\<rparr>)"
    using nd nm by (simp add: MFVI_build_score_loss_def Let_def z x q logw ret)
  have v: "tval I logw = Some (R (map2 (-) lp lq))"
    using lp lq len by (simp add: logw q z x broadcast_same)
  have n: "map2 (-) lp lq \<noteq> []"
    using len ne by (cases lp; cases lq) auto
  have l: "tval I (Reduce_mean logw) = Some (R [mean (map2 (-) lp lq)])"
    using v n by simp
  have "tval I q = Some (R lq)"
    using lq by (simp add: q z)
  then have r: "tval I ret = Some (R [- mean (map2 (*) lq (map2 (-) lp lq))])"
    using v len ne n by (simp add: ret broadcast_same)
  have g: "backprop ret =
         {ret, Reduce_mean (Mul q (Tf_stop_gradient logw)), Mul q (Tf_stop_gradient logw),
          q, Util_stop_gradient z, Tf_stop_gradient logw}"
    by (auto simp add: ret q)
  have m: "z \<notin> backprop ret \<and> logw \<notin> backprop ret \<and> Model_log_prob x z \<notin> backprop ret"
    unfolding g by (simp add: ret q z logw)
  from b v l r g m show ?thesis by simp
qed

theorem MFVI_build_score_loss_estimator_witness:
  "MFVI_build_score_loss demo_mfvi_ready =
     (Inr (Neg (Reduce_mean (Mul demo_q (Tf_stop_gradient demo_log_w)))),
      demo_mfvi_ready\<lparr>zs := Some demo_z, loss := Some (Reduce_mean demo_log_w)\<rparr>)
   \<and> tval demo_interp (Reduce_mean demo_log_w) = Some (R [3 / 2])
   \<and> tval demo_interp (Neg (Reduce_mean (Mul demo_q (Tf_stop_gradient demo_log_w)))) =
       Some (R [- 1])
   \<and> demo_z \<notin> backprop (Neg (Reduce_mean (Mul demo_q (Tf_stop_gradient demo_log_w))))"
proof -
  have h1: "n_data demo_mfvi_ready = Some None"
    by (simp add: demo_mfvi_ready_def)
  have h2: "n_minibatch demo_mfvi_ready = Some 2"
    by (simp add: demo_mfvi_ready_def)
  have h3: "log_prob_p demo_interp (data_sample_of demo_interp None)
       (variational_sample_of demo_interp (Some 2)) = [1, 3]"
    by (simp add: demo_interp_def demo_log_prob_p_def)
  have h4: "log_prob_q demo_interp (variational_sample_of demo_interp (Some 2)) = [0, 1]"
    by (simp add: demo_interp_def demo_log_prob_q_def)
  have h5: "length [1, 3 :: real] = length [0, 1 :: real]" by simp
  have h6: "[0, 1 :: real] \<noteq> []" by simp
  have e1: "mean (map2 (-) [1, 3] [0, 1 :: real]) = 3 / 2"
    by (simp add: mean_def)
  have e2: "- mean (map2 (*) [0, 1] (map2 (-) [1, 3] [0, 1 :: real])) = - 1"
    by (simp add: mean_def)
  note t = MFVI_build_score_loss_estimator
      [OF h1 h2 demo_z_def demo_x_def demo_q_def demo_log_w_def refl h3 h4 h5 h6,
       unfolded e1 e2]
  from t show ?thesis
    apply (elim conjE)
    apply (intro conjI)
       apply assumption+
    done
qed

text \<open>
  C6: \<open>KLpq.build_loss\<close>.  The log-weight is \<open>log_prob_model(x, z)\<close> minus the
  variational log-density taken at a gradient-blocked copy of \<open>z\<close>; the normalised
  weights are \<open>exp(logw - log_sum_exp(logw))\<close>, of value the softmax of the log-weights;
  the reportable loss is \<open>mean(w_norm * logw)\<close>; the returned expression is
  \<open>- mean(log_prob_q * frozen(w_norm))\<close>, and backpropagation from it reaches the
  log-density but nothing inside the frozen weights.
\<close>

theorem KLpq_build_loss_estimator:
  assumes nd: "n_data st = Some nd" and nm: "n_minibatch st = Some nm"
    and z: "z = Variational_sample (Some nm)" and x: "x = Data_sample nd"
    and q: "q = Variational_log_prob (Util_stop_gradient z)"
    and logw: "log_w = Sub (Model_log_prob x z) q"
    and wn: "w_norm = Exp (Sub log_w (Log_sum_exp log_w))"
    and ret: "ret = Neg (Reduce_mean (Mul q (Tf_stop_gradient w_norm)))"
    and lp: "log_prob_p I (data_sample_of I nd) (variational_sample_of I (Some nm)) = lp"
    and lq: "log_prob_q I (variational_sample_of I (Some nm)) = lq"
    and len: "length lp = length lq" and ne: "lq \<noteq> []"
  shows "KLpq_build_loss st =
       (Inr ret, st\<lparr>zs := Some z, loss := Some (Reduce_mean (Mul w_norm log_w))\<rparr>)
     \<and> tval I log_w = Some (R (map2 (-) lp lq))
     \<and> tval I w_norm = Some (R (softmax (map2 (-) lp lq)))
     \<and> tval I (Reduce_mean (Mul w_norm log_w)) =
         Some (R [mean (map2 (*) (softmax (map2 (-) lp lq)) (map2 (-) lp lq))])
     \<and> tval I ret = Some (R [- mean (map2 (*) lq (softmax (map2 (-) lp lq)))])
     \<and> backprop ret =
         {ret, Reduce_mean (Mul q (Tf_stop_gradient w_norm)), Mul q (Tf_stop_gradient w_norm),
          q, Util_stop_gradient z, Tf_stop_gradient w_norm}
     \<and> z \<notin> backprop ret \<and> w_norm \<notin> backprop ret \<and> log_w \<notin> backprop ret"
proof -
  have w: "w_norm = KLpq_w_norm log_w"
    by (simp add: wn KLpq_w_norm_def KLpq_log_w_norm_def)
  have b: "KLpq_build_loss st =
       (Inr ret, st\<lparr>zs := Some z, loss := Some (Reduce_mean (Mul w_norm log_w))\<rparr>)"
    using nd nm by (simp add: KLpq_build_loss_def Let_def logw q z x w ret)
  have v: "tval I log_w = Some (R (map2 (-) lp lq))"
    using len lp lq by (simp add: logw q z x broadcast_same)
  have n: "map2 (-) lp lq \<noteq> []"
    using len ne by (cases lp; cases lq) auto
  have vw: "tval I w_norm = Some (R (softmax (map2 (-) lp lq)))"
    unfolding w using v n by (rule tval_w_norm)
  have lw: "length (softmax (map2 (-) lp lq)) = length lq"
    using len by (simp add: length_softmax)
  have sn: "softmax (map2 (-) lp lq) \<noteq> []"
    using n by (rule softmax_not_Nil)
  have l: "tval I (Reduce_mean (Mul w_norm log_w)) =
         Some (R [mean (map2 (*) (softmax (map2 (-) lp lq)) (map2 (-) lp lq))])"
    using v vw lw len n sn by (simp add: broadcast_same)
  have vq: "tval I q = Some (R lq)"
    using lq by (simp add: q z)
  have r: "tval I ret = Some (R [- mean (map2 (*) lq (softmax (map2 (-) lp lq)))])"
    using vq vw lw ne sn by (simp add: ret broadcast_same)
  have g: "backprop ret =
         {ret, Reduce_mean (Mul q (Tf_stop_gradient w_norm)), Mul q (Tf_stop_gradient w_norm),
          q, Util_stop_gradient z, Tf_stop_gradient w_norm}"
    by (auto simp add: ret q)
  have m: "z \<notin> backprop ret \<and> w_norm \<notin> backprop ret \<and> log_w \<notin> backprop ret"
    unfolding g by (simp add: ret q z logw wn)
  from b v vw l r g m show ?thesis by simp
qed

theorem KLpq_build_loss_estimator_witness:
  "KLpq_build_loss demo_mfvi_ready =
     (Inr (Neg (Reduce_mean (Mul demo_q
             (Tf_stop_gradient (Exp (Sub demo_log_w (Log_sum_exp demo_log_w))))))),
      demo_mfvi_ready\<lparr>zs := Some demo_z,
        loss := Some (Reduce_mean (Mul (Exp (Sub demo_log_w (Log_sum_exp demo_log_w)))
                  demo_log_w))\<rparr>)
   \<and> tval demo_interp demo_log_w = Some (R [1, 2])
   \<and> tval demo_interp (Exp (Sub demo_log_w (Log_sum_exp demo_log_w))) =
       Some (R (softmax [1, 2]))"
proof -
  have h1: "n_data demo_mfvi_ready = Some None"
    by (simp add: demo_mfvi_ready_def)
  have h2: "n_minibatch demo_mfvi_ready = Some 2"
    by (simp add: demo_mfvi_ready_def)
  have h3: "log_prob_p demo_interp (data_sample_of demo_interp None)
       (variational_sample_of demo_interp (Some 2)) = [1, 3]"
    by (simp add: demo_interp_def demo_log_prob_p_def)
  have h4: "log_prob_q demo_interp (variational_sample_of demo_interp (Some 2)) = [0, 1]"
    by (simp add: demo_interp_def demo_log_prob_q_def)
  have h5: "length [1, 3 :: real] = length [0, 1 :: real]" by simp
  have h6: "[0, 1 :: real] \<noteq> []" by simp
  have e1: "map2 (-) [1, 3] [0, 1 :: real] = [1, 2]" by simp
  note t = KLpq_build_loss_estimator
      [OF h1 h2 demo_z_def demo_x_def demo_q_def demo_log_w_def refl refl h3 h4 h5 h6,
       unfolded e1]
  from t show ?thesis
    apply (elim conjE)
    apply (intro conjI)
      apply assumption+
    done
qed

text \<open>
  C4: for every MFVI instance on which \<open>initialize\<close> has made its assignments,
  \<open>build_loss\<close> is the builder that the table selects from the estimator flag and from
  whether the family is Gaussian and the model has \<open>log_lik\<close>; and what it returns is
  never what either of the two analytic-entropy builders returns.
\<close>

theorem MFVI_build_loss_dispatch:
  assumes "score st = Some sc" and "n_data st = Some nd" and "n_minibatch st = Some nm"
    and "g = (is_normal (variational st) \<and> has_log_lik (model st))"
  shows "(sc \<and> g \<longrightarrow> MFVI_build_loss st = MFVI_build_score_loss_kl st)
    \<and> (sc \<and> \<not> g \<longrightarrow> MFVI_build_loss st = MFVI_build_score_loss st)
    \<and> (\<not> sc \<and> g \<longrightarrow> MFVI_build_loss st = MFVI_build_reparam_loss_kl st)
    \<and> (\<not> sc \<and> \<not> g \<longrightarrow> MFVI_build_loss st = MFVI_build_reparam_loss st)
    \<and> fst (MFVI_build_loss st) \<noteq> fst (MFVI_build_score_loss_entropy st)
    \<and> fst (MFVI_build_loss st) \<noteq> fst (MFVI_build_reparam_loss_entropy st)"
  using assms
  by (auto simp add: MFVI_build_loss_def builders Let_def split: sum.splits)

theorem MFVI_build_loss_dispatch_witness:
  "MFVI_build_loss (demo_mfvi_ready\<lparr>score := Some False\<rparr>) =
     MFVI_build_reparam_loss (demo_mfvi_ready\<lparr>score := Some False\<rparr>)
   \<and> fst (MFVI_build_loss (demo_mfvi_ready\<lparr>score := Some False\<rparr>)) \<noteq>
       fst (MFVI_build_score_loss_entropy (demo_mfvi_ready\<lparr>score := Some False\<rparr>))
   \<and> fst (MFVI_build_loss (demo_mfvi_ready\<lparr>score := Some False\<rparr>)) \<noteq>
       fst (MFVI_build_reparam_loss_entropy (demo_mfvi_ready\<lparr>score := Some False\<rparr>))"
proof -
  have h1: "score (demo_mfvi_ready\<lparr>score := Some False\<rparr>) = Some False" by simp
  have h2: "n_data (demo_mfvi_ready\<lparr>score := Some False\<rparr>) = Some None"
    by (simp add: demo_mfvi_ready_def)
  have h3: "n_minibatch (demo_mfvi_ready\<lparr>score := Some False\<rparr>) = Some 2"
    by (simp add: demo_mfvi_ready_def)
  have h4: "False = (is_normal (variational (demo_mfvi_ready\<lparr>score := Some False\<rparr>)) \<and>
      has_log_lik (model (demo_mfvi_ready\<lparr>score := Some False\<rparr>)))"
    by (simp add: demo_mfvi_ready_def demo_mfvi_def VariationalInference_init_def demo_model_def)
  from MFVI_build_loss_dispatch [OF h1 h2 h3 h4] show ?thesis by blast
qed






text \<open>
  C2, as the code has it: with no \<open>score\<close> flag \<open>MFVI.initialize\<close> selects the
  reparameterisation estimator when the family supports it and the score estimator
  otherwise; \<open>score=True\<close> selects the score estimator for every family; and
  \<open>score=False\<close> does not select the reparameterisation estimator for a family that
  does not support it: it selects the score estimator.
\<close>

theorem MFVI_initialize_estimator:
  "(score' = None \<longrightarrow>
      score (snd (MFVI_initialize ev nm score' n nd np opt sc st)) =
        Some (\<not> is_reparam (variational st)))
   \<and> (score' = Some True \<longrightarrow>
      score (snd (MFVI_initialize ev nm score' n nd np opt sc st)) = Some True)
   \<and> (score' = Some False \<and> \<not> is_reparam (variational st) \<longrightarrow>
      score (snd (MFVI_initialize ev nm score' n nd np opt sc st)) = Some True)"
  by (auto simp add: MFVI_initialize_def VariationalInference_initialize_def
      MFVI_build_loss_def builders Let_def split: sum.splits option.splits prod.splits)

theorem MFVI_initialize_estimator_witness:
  "score (snd (MFVI_initialize demo_env 1 None 1000 None (Some 100) None None demo_mfvi)) =
     Some False
   \<and> score (snd (MFVI_initialize demo_env 1 None 1000 None (Some 100) None None
        demo_mfvi_not_reparam)) = Some True
   \<and> score (snd (MFVI_initialize demo_env 1 (Some True) 1000 None (Some 100) None None
        demo_mfvi)) = Some True"
proof -
  have r1: "is_reparam (variational demo_mfvi)"
    by (simp add: demo_mfvi_def VariationalInference_init_def demo_gaussian_def)
  have r2: "\<not> is_reparam (variational demo_mfvi_not_reparam)"
    by (simp add: demo_mfvi_not_reparam_def VariationalInference_init_def demo_not_reparam_def)
  show ?thesis
    using r1 r2
      MFVI_initialize_estimator [of None demo_env 1 1000 None "Some 100" None None demo_mfvi]
      MFVI_initialize_estimator [of None demo_env 1 1000 None "Some 100" None None
        demo_mfvi_not_reparam]
      MFVI_initialize_estimator [of "Some True" demo_env 1 1000 None "Some 100" None None
        demo_mfvi]
    by simp
qed

text \<open>
  The claim C2 as stated fails: \<open>score=False\<close> on a family that does not support
  reparameterisation selects the score estimator, and the loss handed to the optimizer
  is the score loss.
\<close>

theorem MFVI_initialize_estimator_counterexample:
  "\<not> is_reparam (variational demo_mfvi_not_reparam)
   \<and> fst (MFVI_initialize demo_env 1 (Some False) 1000 None (Some 100) None None
        demo_mfvi_not_reparam) = Inr ()
   \<and> score (snd (MFVI_initialize demo_env 1 (Some False) 1000 None (Some 100) None None
        demo_mfvi_not_reparam)) = Some True
   \<and> score (snd (MFVI_initialize demo_env 1 (Some False) 1000 None (Some 100) None None
        demo_mfvi_not_reparam)) \<noteq> Some False"
  by (simp add: MFVI_initialize_def VariationalInference_initialize_def MFVI_build_loss_def
      builders Let_def demo_mfvi_not_reparam_def VariationalInference_init_def
      demo_not_reparam_def demo_model_def)

end
